theory Spec2Isabelle
  imports Main "HOL-Library.Word"
begin

unbundle bit_operations_syntax

section \<open>Data model\<close>

text \<open>
  The firmware keeps all of its state in globals of \<^verbatim>\<open>main.cpp\<close>: the object \<^verbatim>\<open>ca\<close>
  (device state, display mode, snoozed flag, the three time values and the I/O wrapper),
  the two countdowns, the pattern phase flag and the timer-2 interrupt mask register.
  Handlers are modelled as functions from the whole state to the whole state.
\<close>

datatype DeviceState = IDLE | SET_ALARM1 | SET_ALARM2 | SET_CLOCK1 | SET_CLOCK2 | RING

datatype Mode = H12 | H24

datatype Button = SET_ALARM | UP | DOWN | MODE | SNOOZE | STOP_ALARM

text \<open>
  The state enumeration is declared in \<^verbatim>\<open>core/CodAlarm.h\<close>, which is not among the
  sources, so the numbers of its enumerators are not known. They matter where the code uses
  an assignment \<^verbatim>\<open>ca.state = X\<close> as a condition: the condition is the assigned value
  converted to bool, that is, whether the number of \<open>X\<close> is non-zero. Every operation
  that evaluates such a condition takes the numbering as a parameter \<open>en\<close>. Distinct
  enumerators have distinct numbers, so the comparison \<^verbatim>\<open>ca.state == X\<close> is equality of
  the enumerators.
\<close>

type_synonym numbering = "DeviceState \<Rightarrow> int"

text \<open>
  Two numberings for concrete scenarios: the enumerators in the order in which the data
  model of the spec lists them, counted from \<open>k\<close>. Counted from 0, IDLE is zero (what a
  declaration without explicit values, in that order, gives); counted from 1, no
  enumerator is zero, which is how the spec describes the assignment guards ("as written
  always true").
\<close>

definition enum_from :: "int \<Rightarrow> numbering" where
  "enum_from k x =
     k + (case x of
            IDLE \<Rightarrow> 0 | SET_ALARM1 \<Rightarrow> 1 | SET_ALARM2 \<Rightarrow> 2
          | SET_CLOCK1 \<Rightarrow> 3 | SET_CLOCK2 \<Rightarrow> 4 | RING \<Rightarrow> 5)"

subsection \<open>Time values\<close>

text \<open>
  Modelled from the spec: class \<^verbatim>\<open>Clock\<close> (\<^verbatim>\<open>core/Clock.h\<close>) is not among the sources.
  The spec describes a TimeValue as hour/minute/second, always normalised, whose
  increment and decrement wrap with carry (minute 59 to 0 increments the hour, hour 23 to 0
  in 24h mode or 12 to 1 in 12h mode), with equality on the value; \<^verbatim>\<open>sync\<close> copies another
  value. \<^verbatim>\<open>setHour(d)\<close> and \<^verbatim>\<open>setMin(d)\<close> step the hour or the minute \<open>d\<close> times, upwards
  for positive \<open>d\<close> and downwards for negative \<open>d\<close>.
\<close>

record TimeValue =
  hour :: int
  minute :: int
  second :: int

definition inc_hour :: "Mode \<Rightarrow> int \<Rightarrow> int" where
  "inc_hour m h =
     (case m of
        H24 \<Rightarrow> if 23 \<le> h then 0 else h + 1
      | H12 \<Rightarrow> if 12 \<le> h then 1 else h + 1)"

definition dec_hour :: "Mode \<Rightarrow> int \<Rightarrow> int" where
  "dec_hour m h =
     (case m of
        H24 \<Rightarrow> if h \<le> 0 then 23 else h - 1
      | H12 \<Rightarrow> if h \<le> 1 then 12 else h - 1)"

definition inc_min :: "Mode \<Rightarrow> TimeValue \<Rightarrow> TimeValue" where
  "inc_min m t =
     (if 59 \<le> minute t then t\<lparr>hour := inc_hour m (hour t), minute := 0\<rparr>
      else t\<lparr>minute := minute t + 1\<rparr>)"

definition dec_min :: "Mode \<Rightarrow> TimeValue \<Rightarrow> TimeValue" where
  "dec_min m t =
     (if minute t \<le> 0 then t\<lparr>hour := dec_hour m (hour t), minute := 59\<rparr>
      else t\<lparr>minute := minute t - 1\<rparr>)"

definition setHour :: "Mode \<Rightarrow> int \<Rightarrow> TimeValue \<Rightarrow> TimeValue" where
  "setHour m d t =
     (if 0 \<le> d then t\<lparr>hour := (inc_hour m ^^ nat d) (hour t)\<rparr>
      else t\<lparr>hour := (dec_hour m ^^ nat (- d)) (hour t)\<rparr>)"

definition setMin :: "Mode \<Rightarrow> int \<Rightarrow> TimeValue \<Rightarrow> TimeValue" where
  "setMin m d t =
     (if 0 \<le> d then (inc_min m ^^ nat d) t else (dec_min m ^^ nat (- d)) t)"

definition tick :: "Mode \<Rightarrow> TimeValue \<Rightarrow> TimeValue" where
  "tick m t =
     (if 59 \<le> second t then inc_min m (t\<lparr>second := 0\<rparr>)
      else t\<lparr>second := second t + 1\<rparr>)"

definition getValue :: "TimeValue \<Rightarrow> int \<times> int \<times> int" where
  "getValue t = (hour t, minute t, second t)"

definition sync :: "TimeValue \<Rightarrow> TimeValue \<Rightarrow> TimeValue" where
  "sync t other = t\<lparr>hour := hour other, minute := minute other, second := second other\<rparr>"

definition hms :: "int \<Rightarrow> int \<Rightarrow> int \<Rightarrow> TimeValue" where
  "hms h m s = \<lparr>hour = h, minute = m, second = s\<rparr>"

definition normalised :: "TimeValue \<Rightarrow> bool" where
  "normalised t \<longleftrightarrow>
     0 \<le> hour t \<and> hour t < 24 \<and> 0 \<le> minute t \<and> minute t < 60 \<and> 0 \<le> second t \<and> second t < 60"

definition minute_of_day :: "TimeValue \<Rightarrow> int" where
  "minute_of_day t = hour t * 60 + minute t"

subsection \<open>The globals\<close>

text \<open>
  \<open>switch\<close> is what \<^verbatim>\<open>ca.io.getSwitch()\<close> reads and \<open>light\<close> what \<^verbatim>\<open>ca.io.setLight\<close>
  writes. The two countdowns are C \<^verbatim>\<open>int\<close>s; they are only ever assigned a constant or
  decremented while strictly positive, so no arithmetic on them can overflow.
\<close>

record sys =
  state :: DeviceState
  mode :: Mode
  snoozed :: bool
  clock :: TimeValue
  alarm :: TimeValue
  snooze :: TimeValue
  switch :: bool
  light :: bool
  backlight_counter :: int
  buzzer_counter :: int
  buzzer_state :: bool
  TIMSK2 :: "8 word"

definition BACKLIGHT_OFF :: int where
  "BACKLIGHT_OFF = - 1"

definition BUZZER_OFF :: int where
  "BUZZER_OFF = - 1"

text \<open>
  The durations \<^verbatim>\<open>N_BUZZER_LONG\<close>, \<^verbatim>\<open>N_BUZZER_SHORT\<close> and \<^verbatim>\<open>N_BACKLIGHT\<close> are macros of a
  header that is not among the sources; every operation that uses them takes them as a
  parameter.
\<close>

record timing =
  N_BUZZER_LONG :: int
  N_BUZZER_SHORT :: int
  N_BACKLIGHT :: int

definition sample_timing :: timing where
  "sample_timing = \<lparr>N_BUZZER_LONG = 3, N_BUZZER_SHORT = 1, N_BACKLIGHT = 4\<rparr>"

text \<open>
  Modelled from the spec: the macros \<^verbatim>\<open>SET_BIT\<close> and \<^verbatim>\<open>UNSET_BIT\<close> are not among the
  sources. The comments at their two uses say that they enable and disable the timer-2
  compare interrupt, the buzzer-pulse source of the spec: they set and clear one bit of the
  register value they are given. \<^verbatim>\<open>OCIE1A\<close> is bit 1 in the AVR headers.
\<close>

definition OCIE1A :: nat where
  "OCIE1A = 1"

definition SET_BIT :: "8 word \<Rightarrow> nat \<Rightarrow> 8 word" where
  "SET_BIT reg b = reg OR push_bit b 1"

definition UNSET_BIT :: "8 word \<Rightarrow> nat \<Rightarrow> 8 word" where
  "UNSET_BIT reg b = reg AND NOT (push_bit b 1)"

definition buzzer_armed :: "sys \<Rightarrow> bool" where
  "buzzer_armed s = bit (TIMSK2 s) OCIE1A"

text \<open>
  The state at \<^verbatim>\<open>sei()\<close>: the initialisers of the globals, and the defaults the spec
  gives for the entities of \<^verbatim>\<open>ca\<close> (00:00, IDLE, H24, not snoozed). The level of the
  switch is an input.
\<close>

definition init_sys :: "bool \<Rightarrow> sys" where
  "init_sys sw =
     \<lparr>state = IDLE, mode = H24, snoozed = False,
      clock = hms 0 0 0, alarm = hms 0 0 0, snooze = hms 0 0 0,
      switch = sw, light = False,
      backlight_counter = BACKLIGHT_OFF, buzzer_counter = BUZZER_OFF,
      buzzer_state = False, TIMSK2 = 0\<rparr>"

section \<open>Operations\<close>

subsection \<open>Buzzer\<close>

definition startBuzzer :: "timing \<Rightarrow> sys \<Rightarrow> sys" where
  "startBuzzer K s =
     (let s1 =
        (if state s = RING then
           (if buzzer_counter s \<le> 0 then s\<lparr>buzzer_counter := N_BUZZER_LONG K\<rparr> else s)
         else s\<lparr>buzzer_counter := N_BUZZER_SHORT K\<rparr>)
      in s1\<lparr>TIMSK2 := SET_BIT (TIMSK2 s1) OCIE1A\<rparr>)"

definition stopBuzzer :: "sys \<Rightarrow> sys" where
  "stopBuzzer s = s\<lparr>TIMSK2 := UNSET_BIT (TIMSK2 s) OCIE1A\<rparr>"

subsection \<open>Guards\<close>

text \<open>
  The expression \<^verbatim>\<open>ca.state = X\<close> used as a condition: it stores \<open>X\<close> and yields the
  stored value converted to bool. The expression \<^verbatim>\<open>ca.state == X\<close> only reads.
\<close>

definition assign_guard :: "numbering \<Rightarrow> DeviceState \<Rightarrow> sys \<Rightarrow> sys \<times> bool" where
  "assign_guard en x s = (s\<lparr>state := x\<rparr>, en x \<noteq> 0)"

definition equal_guard :: "DeviceState \<Rightarrow> sys \<Rightarrow> sys \<times> bool" where
  "equal_guard x s = (s, state s = x)"

text \<open>The three guards of \<^verbatim>\<open>main\<close>, the timer-1 handler and \<^verbatim>\<open>pressStopAlarm\<close>.\<close>

definition main_guard :: "numbering \<Rightarrow> sys \<Rightarrow> sys \<times> bool" where
  "main_guard en = assign_guard en RING"

definition tick_guard :: "numbering \<Rightarrow> sys \<Rightarrow> sys \<times> bool" where
  "tick_guard en = assign_guard en IDLE"

definition stop_guard :: "numbering \<Rightarrow> sys \<Rightarrow> sys \<times> bool" where
  "stop_guard en = assign_guard en RING"

subsection \<open>Button handlers\<close>

definition pressButton :: "timing \<Rightarrow> sys \<Rightarrow> sys" where
  "pressButton K s = startBuzzer K (s\<lparr>light := True, backlight_counter := N_BACKLIGHT K\<rparr>)"

definition pressStopAlarm :: "numbering \<Rightarrow> sys \<Rightarrow> sys" where
  "pressStopAlarm en s =
     (case stop_guard en s of
        (s1, c) \<Rightarrow> if c then stopBuzzer (s1\<lparr>state := IDLE, snoozed := False\<rparr>) else s1)"

definition pressSetAlarm :: "sys \<Rightarrow> sys" where
  "pressSetAlarm s =
     (if state s = SET_ALARM1 then s\<lparr>state := SET_ALARM2\<rparr> else s\<lparr>state := IDLE\<rparr>)"

definition longSetAlarm :: "sys \<Rightarrow> sys" where
  "longSetAlarm s = (if state s = IDLE then s\<lparr>state := SET_ALARM1\<rparr> else s)"

definition pressSetClock :: "sys \<Rightarrow> sys" where
  "pressSetClock s =
     (if state s = SET_CLOCK1 then s\<lparr>state := SET_CLOCK2\<rparr> else s\<lparr>state := IDLE\<rparr>)"

definition longSetClock :: "sys \<Rightarrow> sys" where
  "longSetClock s = (if state s = IDLE then s\<lparr>state := SET_CLOCK1\<rparr> else s)"

definition pressUp :: "sys \<Rightarrow> sys" where
  "pressUp s =
     (case state s of
        SET_ALARM1 \<Rightarrow> s\<lparr>alarm := setHour (mode s) 1 (alarm s)\<rparr>
      | SET_ALARM2 \<Rightarrow> s\<lparr>alarm := setMin (mode s) 1 (alarm s)\<rparr>
      | SET_CLOCK1 \<Rightarrow> s\<lparr>clock := setHour (mode s) 1 (clock s)\<rparr>
      | SET_CLOCK2 \<Rightarrow> s\<lparr>clock := setMin (mode s) 1 (clock s)\<rparr>
      | _ \<Rightarrow> s)"

definition pressDown :: "sys \<Rightarrow> sys" where
  "pressDown s =
     (case state s of
        SET_ALARM1 \<Rightarrow> s\<lparr>alarm := setHour (mode s) (- 1) (alarm s)\<rparr>
      | SET_ALARM2 \<Rightarrow> s\<lparr>alarm := setMin (mode s) (- 1) (alarm s)\<rparr>
      | SET_CLOCK1 \<Rightarrow> s\<lparr>clock := setHour (mode s) (- 1) (clock s)\<rparr>
      | SET_CLOCK2 \<Rightarrow> s\<lparr>clock := setMin (mode s) (- 1) (clock s)\<rparr>
      | _ \<Rightarrow> s)"

definition pressMode :: "sys \<Rightarrow> sys" where
  "pressMode s = (if mode s = H12 then s\<lparr>mode := H24\<rparr> else s\<lparr>mode := H12\<rparr>)"

definition pressSnooze :: "sys \<Rightarrow> sys" where
  "pressSnooze s =
     (if state s = RING then
        (let s1 =
           (if \<not> snoozed s then
              (let s2 = s\<lparr>snoozed := True\<rparr>;
                   s3 = s2\<lparr>snooze := sync (snooze s2) (alarm s2)\<rparr>
               in s3\<lparr>snooze := setMin (mode s3) 5 (snooze s3)\<rparr>)
            else s\<lparr>snooze := setMin (mode s) 5 (snooze s)\<rparr>)
         in s1\<lparr>state := IDLE\<rparr>)
      else s)"

subsection \<open>Listener registration and dispatch\<close>

text \<open>
  The listeners in the order in which \<^verbatim>\<open>main\<close> registers them with
  \<^verbatim>\<open>setPressHandler\<close> and \<^verbatim>\<open>setLongHandler\<close>. \<^verbatim>\<open>pressButton\<close> is registered without a
  button: it is the generic listener, called for every button.
\<close>

definition press_handlers :: "numbering \<Rightarrow> (Button \<times> (sys \<Rightarrow> sys)) list" where
  "press_handlers en =
     [(SET_ALARM, pressSetAlarm), (SET_ALARM, pressSetClock),
      (UP, pressUp), (DOWN, pressDown), (MODE, pressMode),
      (SNOOZE, pressSnooze), (STOP_ALARM, pressStopAlarm en)]"

definition long_handlers :: "(Button \<times> (sys \<Rightarrow> sys)) list" where
  "long_handlers = [(SET_ALARM, longSetAlarm), (SET_ALARM, longSetClock)]"

text \<open>
  Modelled from the spec: the dispatcher of the I/O wrapper (\<^verbatim>\<open>checkPress\<close>,
  \<^verbatim>\<open>countCheckLong\<close>) is not among the sources. By the spec, all listeners registered for
  the button run, in registration order; the generic listener, registered first, runs
  first. Which button (if any) completed a short press, or crossed the long-press
  threshold, is an input.
\<close>

definition listeners :: "Button \<Rightarrow> (Button \<times> (sys \<Rightarrow> sys)) list \<Rightarrow> (sys \<Rightarrow> sys) list" where
  "listeners b tab = map snd (filter (\<lambda>e. fst e = b) tab)"

definition run_all :: "(sys \<Rightarrow> sys) list \<Rightarrow> sys \<Rightarrow> sys" where
  "run_all hs s = fold (\<lambda>h. h) hs s"

definition shortPress :: "numbering \<Rightarrow> timing \<Rightarrow> Button \<Rightarrow> sys \<Rightarrow> sys" where
  "shortPress en K b s = run_all (listeners b (press_handlers en)) (pressButton K s)"

definition longPress :: "Button \<Rightarrow> sys \<Rightarrow> sys" where
  "longPress b s = run_all (listeners b long_handlers) s"

definition checkPress :: "numbering \<Rightarrow> timing \<Rightarrow> Button option \<Rightarrow> sys \<Rightarrow> sys" where
  "checkPress en K p s = (case p of None \<Rightarrow> s | Some b \<Rightarrow> shortPress en K b s)"

definition countCheckLong :: "Button option \<Rightarrow> sys \<Rightarrow> sys" where
  "countCheckLong p s = (case p of None \<Rightarrow> s | Some b \<Rightarrow> longPress b s)"

subsection \<open>Foreground loop\<close>

definition switch_poll :: "numbering \<Rightarrow> sys \<Rightarrow> sys" where
  "switch_poll en s =
     (if \<not> switch s then
        (case main_guard en s of
           (s1, c) \<Rightarrow> if c then stopBuzzer (s1\<lparr>state := IDLE, snoozed := False\<rparr>) else s1)
      else s)"

text \<open>One pass of \<^verbatim>\<open>while (1)\<close>; drawing the display changes none of the globals.\<close>

definition main_iteration :: "numbering \<Rightarrow> timing \<Rightarrow> Button option \<Rightarrow> sys \<Rightarrow> sys" where
  "main_iteration en K p s = checkPress en K p (switch_poll en s)"

subsection \<open>Interrupt handlers\<close>

definition backlight_step :: "sys \<Rightarrow> sys" where
  "backlight_step s =
     (if backlight_counter s \<noteq> BACKLIGHT_OFF then
        (if 0 < backlight_counter s then s\<lparr>backlight_counter := backlight_counter s - 1\<rparr>
         else s\<lparr>light := False, backlight_counter := BACKLIGHT_OFF\<rparr>)
      else s)"

text \<open>
  The statement \<^verbatim>\<open>buzzer_state != buzzer_state;\<close> after the two branches compares and
  discards the result: it stores nothing, so \<open>buzzer_state\<close> is the same before and after.
\<close>

definition buzzer_step :: "timing \<Rightarrow> sys \<Rightarrow> sys" where
  "buzzer_step K s =
     (if buzzer_counter s \<noteq> BUZZER_OFF then
        (if 0 < buzzer_counter s then s\<lparr>buzzer_counter := buzzer_counter s - 1\<rparr>
         else if state s = RING then
           (if buzzer_state s then startBuzzer K s
            else stopBuzzer (s\<lparr>buzzer_counter := N_BUZZER_LONG K\<rparr>))
         else stopBuzzer (s\<lparr>buzzer_counter := BUZZER_OFF\<rparr>))
      else s)"

definition TIMER0_OVF :: "timing \<Rightarrow> Button option \<Rightarrow> sys \<Rightarrow> sys" where
  "TIMER0_OVF K p s = buzzer_step K (backlight_step (countCheckLong p s))"

definition TIMER1_COMPA :: "numbering \<Rightarrow> timing \<Rightarrow> sys \<Rightarrow> sys" where
  "TIMER1_COMPA en K s =
     (let s0 = s\<lparr>clock := tick (mode s) (clock s)\<rparr> in
      if switch s0 then
        (case tick_guard en s0 of
           (s1, c) \<Rightarrow>
             if c then
               (if snoozed s1 then
                  (if getValue (snooze s1) = getValue (clock s1)
                   then startBuzzer K (s1\<lparr>state := RING\<rparr>) else s1)
                else
                  (if getValue (alarm s1) = getValue (clock s1)
                   then startBuzzer K (s1\<lparr>state := RING\<rparr>) else s1))
             else s1)
      else s0)"

subsection \<open>Events\<close>

text \<open>
  The things that can happen to the device, each run to completion: a completed short
  press, a long press, the foreground poll of the switch, one fast periodic tick without a
  long press, one 1-second tick, and a change of the switch level.
\<close>

datatype Event =
    ShortPress Button
  | LongPress Button
  | SwitchPoll
  | FastTick
  | SecondTick
  | SwitchSet bool

fun step :: "numbering \<Rightarrow> timing \<Rightarrow> Event \<Rightarrow> sys \<Rightarrow> sys" where
  "step en K (ShortPress b) s = checkPress en K (Some b) s"
| "step en K (LongPress b) s = countCheckLong (Some b) s"
| "step en K SwitchPoll s = switch_poll en s"
| "step en K FastTick s = TIMER0_OVF K None s"
| "step en K SecondTick s = TIMER1_COMPA en K s"
| "step en K (SwitchSet b) s = s\<lparr>switch := b\<rparr>"

definition run :: "numbering \<Rightarrow> timing \<Rightarrow> Event list \<Rightarrow> sys \<Rightarrow> sys" where
  "run en K es s = fold (step en K) es s"

section \<open>The transition table of the spec\<close>



section \<open>Scenarios\<close>

text \<open>
  One second before the alarm time of the spec's example: 24h mode, alarm 06:30:00,
  switch on, not snoozed, idle.
\<close>

definition alarm_due :: sys where
  "alarm_due = (init_sys True)\<lparr>alarm := hms 6 30 0, clock := hms 6 29 59\<rparr>"

text \<open>
  The same second, while the beep of a button press is still sounding: the pulse source is
  armed and the countdown has one fast tick left.
\<close>

definition alarm_due_beeping :: sys where
  "alarm_due_beeping = alarm_due\<lparr>buzzer_counter := 1, TIMSK2 := SET_BIT 0 OCIE1A\<rparr>"

text \<open>
  The alarm is ringing, the pulse source is armed and the first phase of the pattern has
  just run out. \<open>buzzer_state\<close> has its only value: nothing ever stores to it.
\<close>

definition ring_expired :: sys where
  "ring_expired =
     (init_sys True)\<lparr>state := RING, buzzer_counter := 0, TIMSK2 := SET_BIT 0 OCIE1A\<rparr>"

definition fast_ticks :: "timing \<Rightarrow> nat \<Rightarrow> sys \<Rightarrow> sys" where
  "fast_ticks K n s = (TIMER0_OVF K None ^^ n) s"

text \<open>
  The alarm of 06:30:00 is ringing: before a first snooze (\<open>False\<close>), with a stale snooze
  time of 01:02:03, or after it, with the snooze time 06:35:00.
\<close>

definition ringing :: "bool \<Rightarrow> sys" where
  "ringing sn =
     (init_sys True)\<lparr>state := RING, snoozed := sn, alarm := hms 6 30 0,
       snooze := (if sn then hms 6 35 0 else hms 1 2 3)\<rparr>"

section \<open>Basic facts\<close>

lemma bit_SET_BIT_OCIE1A: "bit (SET_BIT reg OCIE1A) OCIE1A"
  by (simp add: SET_BIT_def OCIE1A_def bit_simps)

lemma bit_UNSET_BIT_OCIE1A: "\<not> bit (UNSET_BIT reg OCIE1A) OCIE1A"
  by (simp add: UNSET_BIT_def OCIE1A_def bit_simps)

lemma buzzer_armed_startBuzzer: "buzzer_armed (startBuzzer K s)"
  by (simp add: startBuzzer_def buzzer_armed_def Let_def bit_SET_BIT_OCIE1A)

lemma buzzer_armed_stopBuzzer: "\<not> buzzer_armed (stopBuzzer s)"
  by (simp add: stopBuzzer_def buzzer_armed_def bit_UNSET_BIT_OCIE1A)

lemma state_startBuzzer: "state (startBuzzer K s) = state s"
  by (simp add: startBuzzer_def Let_def)

lemma state_stopBuzzer: "state (stopBuzzer s) = state s"
  by (simp add: stopBuzzer_def)

subsection \<open>Time values\<close>

lemma sync_copies: "sync t other = other"
  by (cases t, cases other) (simp add: sync_def)

lemma setMin_5: "setMin m 5 t = inc_min m (inc_min m (inc_min m (inc_min m (inc_min m t))))"
  by (simp add: setMin_def eval_nat_numeral)

lemma inc_min_H24:
  assumes "normalised t"
  shows "normalised (inc_min H24 t)"
    and "minute_of_day (inc_min H24 t) = (minute_of_day t + 1) mod 1440"
    and "second (inc_min H24 t) = second t"
proof -
  show "normalised (inc_min H24 t)"
    using assms by (simp add: normalised_def inc_min_def inc_hour_def)
  show "second (inc_min H24 t) = second t"
    by (simp add: inc_min_def)
  have bounds: "0 \<le> hour t" "hour t < 24" "0 \<le> minute t" "minute t < 60"
    using assms by (simp_all add: normalised_def)
  show "minute_of_day (inc_min H24 t) = (minute_of_day t + 1) mod 1440"
  proof (cases "59 \<le> minute t")
    case False
    then show ?thesis
      using bounds by (simp add: inc_min_def minute_of_day_def)
  next
    case True
    then have m: "minute t = 59" using bounds by simp
    show ?thesis
    proof (cases "23 \<le> hour t")
      case True
      then have "hour t = 23" using bounds by simp
      then show ?thesis
        using m by (simp add: inc_min_def inc_hour_def minute_of_day_def)
    next
      case False
      then show ?thesis
        using m bounds by (simp add: inc_min_def inc_hour_def minute_of_day_def)
    qed
  qed
qed

text \<open>
  In 24h mode \<^verbatim>\<open>setMin(5)\<close> is "plus five minutes": the minute of the day advances by
  five modulo a day and the seconds stay.
\<close>

lemma setMin_5_H24:
  assumes "normalised t"
  shows "normalised (setMin H24 5 t)"
    and "minute_of_day (setMin H24 5 t) = (minute_of_day t + 5) mod 1440"
    and "second (setMin H24 5 t) = second t"
proof -
  let ?f = "inc_min H24"
  have n1: "normalised (?f t)" using assms by (rule inc_min_H24)
  have n2: "normalised (?f (?f t))" using n1 by (rule inc_min_H24)
  have n3: "normalised (?f (?f (?f t)))" using n2 by (rule inc_min_H24)
  have n4: "normalised (?f (?f (?f (?f t))))" using n3 by (rule inc_min_H24)
  show "normalised (setMin H24 5 t)"
    unfolding setMin_5 using n4 by (rule inc_min_H24)
  have "minute_of_day (setMin H24 5 t) =
      (((((minute_of_day t + 1) mod 1440 + 1) mod 1440 + 1) mod 1440 + 1) mod 1440 + 1) mod 1440"
    unfolding setMin_5
    by (simp only: inc_min_H24(2) [OF assms] inc_min_H24(2) [OF n1] inc_min_H24(2) [OF n2]
        inc_min_H24(2) [OF n3] inc_min_H24(2) [OF n4])
  also have "\<dots> = (minute_of_day t + 5) mod 1440"
    by presburger
  finally show "minute_of_day (setMin H24 5 t) = (minute_of_day t + 5) mod 1440" .
  show "second (setMin H24 5 t) = second t"
    unfolding setMin_5
    by (simp only: inc_min_H24(3) [OF assms] inc_min_H24(3) [OF n1] inc_min_H24(3) [OF n2]
        inc_min_H24(3) [OF n3] inc_min_H24(3) [OF n4])
qed

subsection \<open>Dispatch\<close>

lemma run_all_simps:
  "run_all [] s = s" "run_all (h # hs) s = run_all hs (h s)"
  by (simp_all add: run_all_def)

lemma listeners_press_SET_ALARM:
  "listeners SET_ALARM (press_handlers en) = [pressSetAlarm, pressSetClock]"
  by (simp add: listeners_def press_handlers_def)

lemma listeners_press_UP: "listeners UP (press_handlers en) = [pressUp]"
  by (simp add: listeners_def press_handlers_def)

lemma listeners_press_DOWN: "listeners DOWN (press_handlers en) = [pressDown]"
  by (simp add: listeners_def press_handlers_def)

lemma listeners_press_MODE: "listeners MODE (press_handlers en) = [pressMode]"
  by (simp add: listeners_def press_handlers_def)

lemma listeners_press_SNOOZE: "listeners SNOOZE (press_handlers en) = [pressSnooze]"
  by (simp add: listeners_def press_handlers_def)

lemma listeners_press_STOP_ALARM: "listeners STOP_ALARM (press_handlers en) = [pressStopAlarm en]"
  by (simp add: listeners_def press_handlers_def)

lemmas listeners_press =
  listeners_press_SET_ALARM listeners_press_UP listeners_press_DOWN
  listeners_press_MODE listeners_press_SNOOZE listeners_press_STOP_ALARM

lemma listeners_long:
  "listeners b long_handlers = (if b = SET_ALARM then [longSetAlarm, longSetClock] else [])"
  by (cases b) (simp_all add: listeners_def long_handlers_def)

lemma shortPress_SET_ALARM:
  "shortPress en K SET_ALARM s = pressSetClock (pressSetAlarm (pressButton K s))"
  by (simp add: shortPress_def listeners_press run_all_simps)

lemma longPress_SET_ALARM: "longPress SET_ALARM s = longSetClock (longSetAlarm s)"
  by (simp add: longPress_def listeners_long run_all_simps)

text \<open>
  The events cover the code: a pass of the foreground loop is the poll of the switch
  followed by the short press it finds, and a run of the timer-0 handler in which a hold
  crosses the threshold is the long press followed by the plain fast tick.
\<close>

lemma main_iteration_events:
  "main_iteration en K (Some b) s = step en K (ShortPress b) (step en K SwitchPoll s)"
  "main_iteration en K None s = step en K SwitchPoll s"
  by (simp_all add: main_iteration_def checkPress_def)

lemma TIMER0_OVF_events:
  "TIMER0_OVF K (Some b) s = step en K FastTick (step en K (LongPress b) s)"
  by (simp add: TIMER0_OVF_def countCheckLong_def)

subsection \<open>The device state after each operation\<close>

lemma state_pressButton: "state (pressButton K s) = state s"
  by (simp add: pressButton_def state_startBuzzer)

lemma state_pressSetClock_pressSetAlarm: "state (pressSetClock (pressSetAlarm s)) = IDLE"
  by (simp add: pressSetClock_def pressSetAlarm_def)

lemma state_longPress:
  "state (longPress b s) = (if b = SET_ALARM \<and> state s = IDLE then SET_ALARM1 else state s)"
  by (simp add: longPress_def listeners_long run_all_simps longSetClock_def longSetAlarm_def)

lemma state_pressUp: "state (pressUp s) = state s"
  by (simp add: pressUp_def split: DeviceState.split)

lemma state_pressDown: "state (pressDown s) = state s"
  by (simp add: pressDown_def split: DeviceState.split)

lemma state_pressMode: "state (pressMode s) = state s"
  by (simp add: pressMode_def)

lemma state_pressSnooze: "state (pressSnooze s) = (if state s = RING then IDLE else state s)"
  by (simp add: pressSnooze_def Let_def)

lemma state_pressStopAlarm:
  "state (pressStopAlarm en s) = (if en RING \<noteq> 0 then IDLE else RING)"
  by (simp add: pressStopAlarm_def stop_guard_def assign_guard_def state_stopBuzzer)

lemma state_shortPress:
  "state (shortPress en K b s) =
     (case b of
        SET_ALARM \<Rightarrow> IDLE
      | UP \<Rightarrow> state s
      | DOWN \<Rightarrow> state s
      | MODE \<Rightarrow> state s
      | SNOOZE \<Rightarrow> if state s = RING then IDLE else state s
      | STOP_ALARM \<Rightarrow> if en RING \<noteq> 0 then IDLE else RING)"
  by (cases b)
    (simp_all add: shortPress_def listeners_press run_all_simps state_pressSetClock_pressSetAlarm
      state_pressUp state_pressDown state_pressMode state_pressSnooze state_pressStopAlarm
      state_pressButton)

lemma state_switch_poll:
  "state (switch_poll en s) =
     (if switch s then state s else if en RING \<noteq> 0 then IDLE else RING)"
  by (simp add: switch_poll_def main_guard_def assign_guard_def state_stopBuzzer)

lemma state_backlight_step: "state (backlight_step s) = state s"
  by (simp add: backlight_step_def)

lemma state_buzzer_step: "state (buzzer_step K s) = state s"
  by (simp add: buzzer_step_def state_startBuzzer state_stopBuzzer)

lemma state_TIMER0_OVF_None: "state (TIMER0_OVF K None s) = state s"
  by (simp add: TIMER0_OVF_def countCheckLong_def state_backlight_step state_buzzer_step)

lemma state_TIMER1_COMPA:
  "state (TIMER1_COMPA en K s) =
     (if switch s then
        (if en IDLE \<noteq> 0 \<and>
            getValue (if snoozed s then snooze s else alarm s) = getValue (tick (mode s) (clock s))
         then RING else IDLE)
      else state s)"
  by (simp add: TIMER1_COMPA_def tick_guard_def assign_guard_def Let_def state_startBuzzer)

lemma state_step:
  "state (step en K e s) =
     (case e of
        ShortPress b \<Rightarrow> state (shortPress en K b s)
      | LongPress b \<Rightarrow> state (longPress b s)
      | SwitchPoll \<Rightarrow> state (switch_poll en s)
      | FastTick \<Rightarrow> state s
      | SecondTick \<Rightarrow> state (TIMER1_COMPA en K s)
      | SwitchSet b \<Rightarrow> state s)"
  by (cases e)
    (simp_all add: checkPress_def countCheckLong_def state_TIMER0_OVF_None)

subsection \<open>The fast tick while the pulse source is disarmed\<close>

lemma TIMER0_OVF_keeps_silent:
  assumes "state s = RING" "\<not> buzzer_state s" "\<not> buzzer_armed s"
  shows "state (TIMER0_OVF K None s) = RING \<and> \<not> buzzer_state (TIMER0_OVF K None s)
    \<and> \<not> buzzer_armed (TIMER0_OVF K None s)"
  using assms
  by (simp add: TIMER0_OVF_def countCheckLong_def backlight_step_def buzzer_step_def
      stopBuzzer_def buzzer_armed_def bit_UNSET_BIT_OCIE1A)

lemma fast_ticks_Suc: "fast_ticks K (Suc n) s = TIMER0_OVF K None (fast_ticks K n s)"
  by (simp add: fast_ticks_def)

lemma fast_ticks_add: "fast_ticks K (m + n) s = fast_ticks K m (fast_ticks K n s)"
  by (simp add: fast_ticks_def funpow_add)

lemma fast_ticks_keep_silent:
  assumes "state s = RING" "\<not> buzzer_state s" "\<not> buzzer_armed s"
  shows "state (fast_ticks K n s) = RING \<and> \<not> buzzer_state (fast_ticks K n s)
    \<and> \<not> buzzer_armed (fast_ticks K n s)"
proof (induction n)
  case 0
  show ?case using assms by (simp add: fast_ticks_def)
next
  case (Suc n)
  then show ?case
    unfolding fast_ticks_Suc by (intro TIMER0_OVF_keeps_silent) simp_all
qed

lemma first_expiry:
  "state (fast_ticks K (Suc 0) ring_expired) = RING
   \<and> \<not> buzzer_state (fast_ticks K (Suc 0) ring_expired)
   \<and> \<not> buzzer_armed (fast_ticks K (Suc 0) ring_expired)"
  by (simp add: fast_ticks_def ring_expired_def init_sys_def TIMER0_OVF_def countCheckLong_def
      backlight_step_def buzzer_step_def BUZZER_OFF_def BACKLIGHT_OFF_def
      stopBuzzer_def buzzer_armed_def bit_UNSET_BIT_OCIE1A)

text \<open>
  With a long duration of three ticks, the countdown is exhausted again after four fast
  ticks; the fifth is the second expiry, and it reloads the countdown with the pulse source
  still disarmed.
\<close>

lemma second_expiry_sample:
  "buzzer_counter (fast_ticks sample_timing 4 ring_expired) = 0
   \<and> buzzer_counter (fast_ticks sample_timing 5 ring_expired) = N_BUZZER_LONG sample_timing
   \<and> \<not> buzzer_armed (fast_ticks sample_timing 5 ring_expired)"
  by (simp add: fast_ticks_def eval_nat_numeral ring_expired_def init_sys_def TIMER0_OVF_def
      countCheckLong_def backlight_step_def buzzer_step_def BUZZER_OFF_def BACKLIGHT_OFF_def
      stopBuzzer_def buzzer_armed_def bit_UNSET_BIT_OCIE1A sample_timing_def)

subsection \<open>The clock-setting states\<close>

lemma step_avoids_SET_CLOCK:
  assumes "state s \<noteq> SET_CLOCK1" "state s \<noteq> SET_CLOCK2"
  shows "state (step en K e s) \<noteq> SET_CLOCK1 \<and> state (step en K e s) \<noteq> SET_CLOCK2"
  using assms
  by (simp add: state_step state_shortPress state_longPress state_switch_poll
      state_TIMER1_COMPA split: Event.split Button.split)

lemma run_avoids_SET_CLOCK:
  assumes "state s \<noteq> SET_CLOCK1" "state s \<noteq> SET_CLOCK2"
  shows "state (run en K es s) \<noteq> SET_CLOCK1 \<and> state (run en K es s) \<noteq> SET_CLOCK2"
  using assms
proof (induction es arbitrary: s)
  case Nil
  then show ?case by (simp add: run_def)
next
  case (Cons e es)
  have "run en K (e # es) s = run en K es (step en K e s)"
    by (simp add: run_def)
  moreover have "state (step en K e s) \<noteq> SET_CLOCK1 \<and> state (step en K e s) \<noteq> SET_CLOCK2"
    using Cons.prems by (rule step_avoids_SET_CLOCK)
  ultimately show ?case
    using Cons.IH [of "step en K e s"] by simp
qed

section \<open>The claims\<close>

subsection \<open>The alarm trigger\<close>

text \<open>
  Claim C1 says that the 1-second tick handler, run in IDLE with the switch on and the
  snoozed flag false, moves the device to RING and arms the buzzer with the long duration
  when the tick makes the clock equal to the alarm. At the spec's own example (alarm
  06:30:00, clock ticking from 06:29:59 to 06:30:00), taken while the beep of a button
  press still has a tick to run, it does not, whatever the number of the enumerator IDLE:
  if the number is non-zero the device rings, but \<^verbatim>\<open>startBuzzer\<close> deliberately leaves a
  running countdown alone ("avoid resetting counter"), so the countdown is not the long
  duration; if the number is zero the test \<^verbatim>\<open>ca.state = IDLE\<close> is false and the device
  does not ring at all.
\<close>

theorem alarm_during_beep_keeps_countdown:
  "state alarm_due_beeping = IDLE \<and> switch alarm_due_beeping \<and> \<not> snoozed alarm_due_beeping
   \<and> getValue (clock (TIMER1_COMPA (enum_from 1) sample_timing alarm_due_beeping))
       = getValue (alarm alarm_due_beeping)
   \<and> state (TIMER1_COMPA (enum_from 1) sample_timing alarm_due_beeping) = RING
   \<and> buzzer_counter (TIMER1_COMPA (enum_from 1) sample_timing alarm_due_beeping) = 1
   \<and> buzzer_counter (TIMER1_COMPA (enum_from 1) sample_timing alarm_due_beeping)
       \<noteq> N_BUZZER_LONG sample_timing
   \<and> state (TIMER1_COMPA (enum_from 0) sample_timing alarm_due_beeping) \<noteq> RING"
  by (simp add: alarm_due_beeping_def alarm_due_def init_sys_def TIMER1_COMPA_def
      tick_guard_def assign_guard_def enum_from_def Let_def tick_def inc_min_def hms_def
      getValue_def startBuzzer_def sample_timing_def)

text \<open>
  Claim C1 as amended: when the number of the enumerator IDLE is non-zero, the handler,
  run in IDLE with the switch on and the snoozed flag false at a tick that makes the clock
  equal to the alarm, moves the device to RING and arms the pulse source; it sets the
  countdown to the long duration when the countdown is exhausted, and leaves a countdown
  that is still running as it is.
\<close>

theorem tick_at_alarm_time_rings:
  assumes "en IDLE \<noteq> 0" and "state s = IDLE" and "switch s" and "\<not> snoozed s"
    and "getValue (alarm s) = getValue (tick (mode s) (clock s))"
  shows "state (TIMER1_COMPA en K s) = RING
    \<and> buzzer_armed (TIMER1_COMPA en K s)
    \<and> buzzer_counter (TIMER1_COMPA en K s) =
        (if 0 < buzzer_counter s then buzzer_counter s else N_BUZZER_LONG K)"
  using assms
  by (simp add: TIMER1_COMPA_def tick_guard_def assign_guard_def Let_def startBuzzer_def
      buzzer_armed_def bit_SET_BIT_OCIE1A)

text \<open>
  The amended claim C1 at the spec's example with the countdown off: the device rings, the
  pulse source is armed and the countdown is the long duration.
\<close>

theorem tick_at_alarm_time_rings_witness:
  "enum_from 1 IDLE \<noteq> 0 \<and> state alarm_due = IDLE \<and> switch alarm_due \<and> \<not> snoozed alarm_due
   \<and> getValue (alarm alarm_due) = getValue (tick (mode alarm_due) (clock alarm_due))
   \<and> state (TIMER1_COMPA (enum_from 1) sample_timing alarm_due) = RING
   \<and> buzzer_armed (TIMER1_COMPA (enum_from 1) sample_timing alarm_due)
   \<and> buzzer_counter (TIMER1_COMPA (enum_from 1) sample_timing alarm_due)
       = N_BUZZER_LONG sample_timing"
proof -
  have a: "enum_from 1 IDLE \<noteq> 0"
    by (simp add: enum_from_def)
  have b: "state alarm_due = IDLE" and c: "switch alarm_due" and d: "\<not> snoozed alarm_due"
    by (simp_all add: alarm_due_def init_sys_def)
  have e: "getValue (alarm alarm_due) = getValue (tick (mode alarm_due) (clock alarm_due))"
    by (simp add: alarm_due_def init_sys_def tick_def inc_min_def hms_def getValue_def)
  have f: "\<not> 0 < buzzer_counter alarm_due"
    by (simp add: alarm_due_def init_sys_def BUZZER_OFF_def)
  show ?thesis
    using a b c d e f
      tick_at_alarm_time_rings
        [where en = "enum_from 1" and s = alarm_due and K = sample_timing, OF a b c d e]
    by simp
qed

subsection \<open>The guards\<close>

text \<open>
  Claim C2 says that evaluating the guard of the foreground loop (RING, switch off), of the
  1-second tick handler (IDLE) and of \<^verbatim>\<open>pressStopAlarm\<close> (RING) is a pure equality test:
  the device state is unchanged and the result is true exactly when the state equals the
  target. All three are assignments. In IDLE, the guards of the foreground loop and of
  \<^verbatim>\<open>pressStopAlarm\<close> store RING, where the equality test leaves IDLE and is false; the
  guard of the tick handler overwrites SET_ALARM1 with IDLE. The result of each guard is
  whether the number of the stored enumerator is non-zero, whatever the state was: with
  the enumerators counted from 0, the RING guards are true in IDLE, where the equality
  test is false, and the IDLE guard is false in IDLE, where the equality test is true.
\<close>

theorem assignment_guards_evaluated:
  "main_guard en (init_sys False) = ((init_sys False)\<lparr>state := RING\<rparr>, en RING \<noteq> 0)
   \<and> equal_guard RING (init_sys False) = (init_sys False, False)
   \<and> stop_guard en (init_sys True) = ((init_sys True)\<lparr>state := RING\<rparr>, en RING \<noteq> 0)
   \<and> equal_guard RING (init_sys True) = (init_sys True, False)
   \<and> tick_guard en (init_sys True) = (init_sys True, en IDLE \<noteq> 0)
   \<and> equal_guard IDLE (init_sys True) = (init_sys True, True)
   \<and> tick_guard en ((init_sys True)\<lparr>state := SET_ALARM1\<rparr>) = (init_sys True, en IDLE \<noteq> 0)
   \<and> equal_guard IDLE ((init_sys True)\<lparr>state := SET_ALARM1\<rparr>)
       = ((init_sys True)\<lparr>state := SET_ALARM1\<rparr>, False)
   \<and> main_guard (enum_from 0) (init_sys False) = ((init_sys False)\<lparr>state := RING\<rparr>, True)
   \<and> stop_guard (enum_from 0) (init_sys True) = ((init_sys True)\<lparr>state := RING\<rparr>, True)
   \<and> tick_guard (enum_from 0) (init_sys True) = (init_sys True, False)
   \<and> tick_guard (enum_from 0) ((init_sys True)\<lparr>state := SET_ALARM1\<rparr>) = (init_sys True, False)"
  by (simp add: main_guard_def stop_guard_def tick_guard_def assign_guard_def equal_guard_def
      init_sys_def enum_from_def)

subsection \<open>Pairs outside the transition table\<close>




subsection \<open>The shared button\<close>

text \<open>
  Claim C4 says that a short press of "Set Alarm" in SET_ALARM1, after all its listeners
  have run in registration order, leaves the device in SET_ALARM2. \<^verbatim>\<open>pressSetAlarm\<close>
  does store SET_ALARM2, but \<^verbatim>\<open>pressSetClock\<close>, registered after it on the same button,
  then finds a state other than SET_CLOCK1 and stores IDLE.
\<close>

theorem set_alarm_press_in_SET_ALARM1_ends_idle:
  "state (pressSetAlarm (pressButton K ((init_sys sw)\<lparr>state := SET_ALARM1\<rparr>))) = SET_ALARM2
   \<and> state (step en K (ShortPress SET_ALARM) ((init_sys sw)\<lparr>state := SET_ALARM1\<rparr>)) = IDLE"
  by (simp add: checkPress_def shortPress_SET_ALARM pressSetClock_def pressSetAlarm_def
      state_pressButton)

text \<open>
  Claim C5 says that a long press of "Set Clock" in IDLE, after all its listeners have run
  in registration order, results in SET_CLOCK1. \<^verbatim>\<open>longSetAlarm\<close>, registered first on the
  same button, stores SET_ALARM1, so \<^verbatim>\<open>longSetClock\<close> no longer finds IDLE and stores
  nothing.
\<close>

theorem long_press_in_IDLE_ends_SET_ALARM1:
  "state (init_sys sw) = IDLE
   \<and> state (step en K (LongPress SET_ALARM) (init_sys sw)) = SET_ALARM1"
  by (simp add: countCheckLong_def longPress_SET_ALARM longSetClock_def longSetAlarm_def
      init_sys_def)

subsection \<open>The ringing pattern\<close>

text \<open>
  Claim C6 says that while the device stays in RING with no button pressed, every expiry
  of the buzzer countdown alternates the pulse source between enabled and disabled, for
  as long as the alarm is not silenced. The statement that should flip the phase flag is
  a comparison, so the flag stays false: from the first expiry on, every expiry takes the
  branch that disarms the pulse source, and it is never armed again, however many fast
  ticks follow. With a long duration of three ticks, the countdown is exhausted again
  after four ticks and the expiry at the fifth leaves the pulse source disarmed.
\<close>

theorem ring_pattern_never_resumes:
  "buzzer_armed ring_expired \<and> buzzer_counter ring_expired = 0
   \<and> state (fast_ticks K (Suc n) ring_expired) = RING
   \<and> \<not> buzzer_armed (fast_ticks K (Suc n) ring_expired)
   \<and> buzzer_counter (fast_ticks sample_timing 4 ring_expired) = 0
   \<and> \<not> buzzer_armed (fast_ticks sample_timing 5 ring_expired)"
proof -
  have "fast_ticks K (Suc n) ring_expired = fast_ticks K n (fast_ticks K (Suc 0) ring_expired)"
    using fast_ticks_add [of K n "Suc 0" ring_expired] by simp
  moreover have "buzzer_armed ring_expired \<and> buzzer_counter ring_expired = 0"
    by (simp add: ring_expired_def buzzer_armed_def bit_SET_BIT_OCIE1A)
  ultimately show ?thesis
    using first_expiry [of K] second_expiry_sample
      fast_ticks_keep_silent [of "fast_ticks K (Suc 0) ring_expired" K n]
    by simp
qed

subsection \<open>Snooze\<close>

text \<open>
  Claim C7: in RING, a short press of "Snooze" sets the snoozed flag and the state IDLE;
  when the flag was false, the snooze time becomes the alarm time advanced by
  \<^verbatim>\<open>setMin(5)\<close>, and when it was already true, the snooze time itself is advanced by
  \<^verbatim>\<open>setMin(5)\<close>; the alarm time is not changed in either case. (\<open>setMin_5_H24\<close> shows
  that \<^verbatim>\<open>setMin(5)\<close> is plus five minutes.)
\<close>

theorem snooze_press_while_ringing:
  assumes "state s = RING"
  shows "snoozed (step en K (ShortPress SNOOZE) s)
    \<and> snooze (step en K (ShortPress SNOOZE) s) =
        setMin (mode s) 5 (if snoozed s then snooze s else alarm s)
    \<and> alarm (step en K (ShortPress SNOOZE) s) = alarm s
    \<and> state (step en K (ShortPress SNOOZE) s) = IDLE"
  using assms
  by (simp add: checkPress_def shortPress_def listeners_press run_all_simps pressSnooze_def
      pressButton_def startBuzzer_def Let_def sync_copies)

text \<open>
  Claim C7 at the alarm of 06:30:00: the first press gives the snooze time 06:35:00, a
  press after it 06:40:00, and the alarm stays 06:30:00.
\<close>

theorem snooze_press_while_ringing_witness:
  "state (ringing False) = RING
   \<and> snoozed (step (enum_from 0) sample_timing (ShortPress SNOOZE) (ringing False))
   \<and> snooze (step (enum_from 0) sample_timing (ShortPress SNOOZE) (ringing False)) = hms 6 35 0
   \<and> state (step (enum_from 0) sample_timing (ShortPress SNOOZE) (ringing False)) = IDLE
   \<and> state (ringing True) = RING
   \<and> snooze (step (enum_from 0) sample_timing (ShortPress SNOOZE) (ringing True)) = hms 6 40 0
   \<and> alarm (step (enum_from 0) sample_timing (ShortPress SNOOZE) (ringing True)) = hms 6 30 0"
proof -
  have a: "state (ringing False) = RING" and b: "state (ringing True) = RING"
    by (simp_all add: ringing_def)
  show ?thesis
    using a b snooze_press_while_ringing [OF a, where en = "enum_from 0" and K = sample_timing]
      snooze_press_while_ringing [OF b, where en = "enum_from 0" and K = sample_timing]
    by (simp add: ringing_def init_sys_def setMin_5 inc_min_def hms_def)
qed

subsection \<open>Starting the buzzer\<close>

text \<open>
  Claim C8: \<^verbatim>\<open>startBuzzer\<close> changes nothing but the countdown and the interrupt mask. In
  RING it leaves a strictly positive countdown as it is and sets an exhausted one to the
  long duration; outside RING it sets the countdown to the short duration; in every case
  the pulse source is armed afterwards.
\<close>

theorem startBuzzer_contract:
  "startBuzzer K s =
     s\<lparr>buzzer_counter :=
          (if state s = RING then
             (if 0 < buzzer_counter s then buzzer_counter s else N_BUZZER_LONG K)
           else N_BUZZER_SHORT K),
        TIMSK2 := SET_BIT (TIMSK2 s) OCIE1A\<rparr>
   \<and> buzzer_armed (startBuzzer K s)"
  by (simp add: startBuzzer_def Let_def buzzer_armed_def bit_SET_BIT_OCIE1A)

subsection \<open>Reachability of the clock-setting states\<close>

text \<open>
  Claim C9: from the initial state, no sequence of short presses, long presses, polls of
  the switch, changes of the switch, fast ticks and 1-second ticks brings the device to
  SET_CLOCK1 or SET_CLOCK2.
\<close>

theorem SET_CLOCK_states_unreachable:
  "state (run en K es (init_sys sw)) \<noteq> SET_CLOCK1 \<and> state (run en K es (init_sys sw)) \<noteq> SET_CLOCK2"
  by (rule run_avoids_SET_CLOCK) (simp_all add: init_sys_def)

subsection \<open>The 1-second tick with the switch on\<close>



end
